theory Spec2Isabelle
  imports Main
begin

section \<open>Python values, exceptions and the process environment\<close>

text \<open>
  The module \<^verbatim>\<open>pytestqt/qt_compat.py\<close> binds names of one of the Qt bindings
  (PySide, PyQt4, PyQt5) onto the attributes of a single \<^verbatim>\<open>_QtApi\<close> object.
  The values it moves around are opaque to it, so they are kept symbolic here:
  \<open>Sym m a\<close> is the object found under attribute \<open>a\<close> of module \<open>m\<close>,
  \<open>Module m\<close> is the module object with dotted name \<open>m\<close>, and \<open>Call f\<close>
  is the result of calling \<open>f\<close> without arguments. The class exists only when
  \<^verbatim>\<open>on_rtd\<close> is false (line 20); the stand-in names of the other branch
  (lines 143-182) carry no behaviour and are left out.
\<close>

datatype pyval =
    PyNone
  | Str string
  | Module string
  | Sym string string
  | Call pyval

datatype error =
    RuntimeError string
  | KeyError string
  | ImportError string
  | AttributeError string string
  | ValueError string

text \<open>
  What the code does to the interpreter, in order: \<open>Import n\<close> is \<^verbatim>\<open>__import__(n)\<close>
  (also the statement \<^verbatim>\<open>import n\<close>), \<open>ImportFrom r m\<close> is
  \<^verbatim>\<open>__import__(r, globals(), locals(), [m], 0)\<close>, and \<open>SetApi n v\<close> is
  \<^verbatim>\<open>sip.setapi(n, v)\<close>.
\<close>

datatype event =
    is_Import: Import string
  | is_ImportFrom: ImportFrom string string
  | is_SetApi: SetApi string nat

text \<open>
  The surroundings of the process: \<^verbatim>\<open>os.environ\<close>, which top-level packages can be
  imported, which attributes a module has, and which \<^verbatim>\<open>sip.setapi\<close> calls the
  binding accepts.
\<close>

record env =
  environ :: "string \<rightharpoonup> string"
  importable :: "string \<Rightarrow> bool"
  has_attr :: "string \<Rightarrow> string \<Rightarrow> bool"
  setapi_ok :: "string \<Rightarrow> nat \<Rightarrow> bool"

text \<open>
  The state: the attribute dictionary of \<^verbatim>\<open>self\<close> (an attribute that was never
  assigned is not in the domain; one assigned \<^verbatim>\<open>None\<close> maps to \<open>PyNone\<close>), and
  the events so far.
\<close>

record state =
  attrs :: "string \<rightharpoonup> pyval"
  trace :: "event list"

type_synonym 'a M = "state \<Rightarrow> (error + 'a) \<times> state"

definition return :: "'a \<Rightarrow> 'a M" where
  "return x = (\<lambda>s. (Inr x, s))"

definition raise :: "error \<Rightarrow> 'a M" where
  "raise e = (\<lambda>s. (Inl e, s))"

definition bind :: "'a M \<Rightarrow> ('a \<Rightarrow> 'b M) \<Rightarrow> 'b M" where
  "bind m f = (\<lambda>s. case m s of
                      (Inl e, s') \<Rightarrow> (Inl e, s')
                    | (Inr x, s') \<Rightarrow> f x s')"

definition seq :: "unit M \<Rightarrow> 'b M \<Rightarrow> 'b M" where
  "seq m k = bind m (\<lambda>_. k)"

definition log_event :: "event \<Rightarrow> unit M" where
  "log_event e = (\<lambda>s. (Inr (), s\<lparr>trace := trace s @ [e]\<rparr>))"

section \<open>Primitives of the interpreter\<close>

text \<open>
  \<^verbatim>\<open>str.lower()\<close> on ASCII strings: the upper-case letters go to their lower-case
  forms and every other character stays.
\<close>

definition lower_char :: "char \<Rightarrow> char" where
  "lower_char c =
     (case map_of (zip ''ABCDEFGHIJKLMNOPQRSTUVWXYZ'' ''abcdefghijklmnopqrstuvwxyz'') c of
        Some l \<Rightarrow> l
      | None \<Rightarrow> c)"

definition lower :: "string \<Rightarrow> string" where
  "lower v = map lower_char v"

text \<open>\<^verbatim>\<open>os.environ.get(k, d)\<close>.\<close>

definition environ_get :: "env \<Rightarrow> string \<Rightarrow> string \<Rightarrow> string" where
  "environ_get E k d = (case environ E k of Some v \<Rightarrow> v | None \<Rightarrow> d)"

text \<open>\<^verbatim>\<open>__import__(name)\<close>: raises \<^verbatim>\<open>ImportError\<close> when the package is not installed.\<close>

definition py_import :: "env \<Rightarrow> string \<Rightarrow> unit M" where
  "py_import E name =
     seq (log_event (Import name))
         (if importable E name then return () else raise (ImportError name))"

text \<open>\<^verbatim>\<open>getattr(module, name)\<close>.\<close>

definition getattr_mod :: "env \<Rightarrow> string \<Rightarrow> string \<Rightarrow> pyval M" where
  "getattr_mod E m name =
     (if has_attr E m name then return (Sym m name) else raise (AttributeError m name))"

text \<open>\<^verbatim>\<open>self.name = v\<close>.\<close>

definition setattr_self :: "string \<Rightarrow> pyval \<Rightarrow> unit M" where
  "setattr_self name v = (\<lambda>s. (Inr (), s\<lparr>attrs := (attrs s)(name \<mapsto> v)\<rparr>))"

text \<open>\<^verbatim>\<open>self.dst = m.src\<close>.\<close>

definition assign_from :: "env \<Rightarrow> string \<Rightarrow> string \<Rightarrow> string \<Rightarrow> unit M" where
  "assign_from E dst m src = bind (getattr_mod E m src) (setattr_self dst)"

text \<open>\<^verbatim>\<open>sip.setapi(name, version)\<close>: the binding raises \<^verbatim>\<open>ValueError\<close> when it refuses.\<close>

definition sip_setapi :: "env \<Rightarrow> string \<Rightarrow> nat \<Rightarrow> unit M" where
  "sip_setapi E name v =
     seq (log_event (SetApi name v))
         (if setapi_ok E name v then return () else raise (ValueError name))"

section \<open>\<^verbatim>\<open>_QtApi.set_qt_api\<close>\<close>

text \<open>The nested helper \<^verbatim>\<open>_try_import\<close> (lines 31-36).\<close>

definition try_import :: "env \<Rightarrow> string \<Rightarrow> bool M" where
  "try_import E name = (\<lambda>s. case py_import E name s of
                               (Inr _, s') \<Rightarrow> (Inr True, s')
                             | (Inl (ImportError _), s') \<Rightarrow> (Inr False, s')
                             | (Inl e, s') \<Rightarrow> (Inl e, s'))"

text \<open>The nested helper \<^verbatim>\<open>_guess_qt_api\<close> (lines 38-47).\<close>

definition guess_qt_api :: "env \<Rightarrow> string M" where
  "guess_qt_api E =
     bind (try_import E ''PySide'') (\<lambda>b1.
       if b1 then return ''pyside''
       else bind (try_import E ''PyQt4'') (\<lambda>b2.
         if b2 then return ''pyqt4''
         else bind (try_import E ''PyQt5'') (\<lambda>b3.
           if b3 then return ''pyqt5''
           else raise (RuntimeError
                  ''pytest-qt requires either PySide, PyQt4 or PyQt5 to be installed''))))"

text \<open>
  Lines 49-60: the choice of the value of \<^verbatim>\<open>qt_api\<close>. The argument is \<^verbatim>\<open>None\<close>
  or a string; \<^verbatim>\<open>not qt_api\<close> holds for \<^verbatim>\<open>None\<close> and for the empty string.
\<close>

definition py_not :: "string option \<Rightarrow> bool" where
  "py_not a = (a = None \<or> a = Some [])"

definition known_apis :: "string list" where
  "known_apis = [''pyside'', ''pyqt4'', ''pyqt4v2'', ''pyqt5'']"

definition resolve_qt_api :: "env \<Rightarrow> string option \<Rightarrow> string M" where
  "resolve_qt_api E qt_api_arg =
     (if environ_get E ''PYTEST_QT_FORCE_PYQT'' ''false'' = ''true'' then return ''pyqt4''
      else if py_not qt_api_arg then
        (case environ E ''PYTEST_QT_API'' of
           Some v \<Rightarrow>
             (let api = lower v
              in if api \<notin> set known_apis
                 then raise (RuntimeError (''Invalid value for $PYTEST_QT_API: '' @ api))
                 else return api)
         | None \<Rightarrow> guess_qt_api E)
      else return (case qt_api_arg of Some a \<Rightarrow> a | None \<Rightarrow> []))"

text \<open>Lines 68-74: the dictionary \<^verbatim>\<open>_root_modules\<close> and its lookup.\<close>

definition root_modules :: "string \<rightharpoonup> string" where
  "root_modules =
     [''pyside'' \<mapsto> ''PySide'', ''pyqt4'' \<mapsto> ''PyQt4'',
      ''pyqt4v2'' \<mapsto> ''PyQt4'', ''pyqt5'' \<mapsto> ''PyQt5'']"

definition root_module_of :: "string \<Rightarrow> string M" where
  "root_module_of api =
     (case root_modules api of Some r \<Rightarrow> return r | None \<Rightarrow> raise (KeyError api))"

text \<open>
  The nested helper \<^verbatim>\<open>_import_module\<close> (lines 64-66); it returns the dotted name
  of the submodule.
\<close>

definition import_module :: "env \<Rightarrow> string \<Rightarrow> string \<Rightarrow> string M" where
  "import_module E root module_name =
     seq (log_event (ImportFrom root module_name))
         (if \<not> importable E root then raise (ImportError root)
          else if \<not> has_attr E root module_name then raise (AttributeError root module_name)
          else return (root @ ''.'' @ module_name))"

text \<open>Lines 79-86: the body of \<^verbatim>\<open>if qt_api == 'pyqt4v2'\<close>.\<close>

definition select_v2_api :: "env \<Rightarrow> unit M" where
  "select_v2_api E =
     seq (py_import E ''sip'')
    (seq (sip_setapi E ''QDate'' 2)
    (seq (sip_setapi E ''QDateTime'' 2)
    (seq (sip_setapi E ''QString'' 2)
    (seq (sip_setapi E ''QTextStream'' 2)
    (seq (sip_setapi E ''QTime'' 2)
    (seq (sip_setapi E ''QUrl'' 2)
         (sip_setapi E ''QVariant'' 2)))))))"

text \<open>Lines 91-106: the names that every binding has, and the two empty slots.\<close>

definition bind_common :: "env \<Rightarrow> string \<Rightarrow> unit M" where
  "bind_common E QtCore =
     seq (assign_from E ''Qt'' QtCore ''Qt'')
    (seq (assign_from E ''QEvent'' QtCore ''QEvent'')
    (seq (assign_from E ''qDebug'' QtCore ''qDebug'')
    (seq (assign_from E ''qWarning'' QtCore ''qWarning'')
    (seq (assign_from E ''qCritical'' QtCore ''qCritical'')
    (seq (assign_from E ''qFatal'' QtCore ''qFatal'')
    (seq (assign_from E ''QtDebugMsg'' QtCore ''QtDebugMsg'')
    (seq (assign_from E ''QtWarningMsg'' QtCore ''QtWarningMsg'')
    (seq (assign_from E ''QtCriticalMsg'' QtCore ''QtCriticalMsg'')
    (seq (assign_from E ''QtFatalMsg'' QtCore ''QtFatalMsg'')
    (seq (setattr_self ''qInstallMsgHandler'' PyNone)
         (setattr_self ''qInstallMessageHandler'' PyNone)))))))))))"

text \<open>Lines 108-129: the names that depend on the binding.\<close>

definition bind_specific :: "env \<Rightarrow> string \<Rightarrow> string \<Rightarrow> string \<Rightarrow> string \<Rightarrow> unit M" where
  "bind_specific E api root QtCore QtGui =
     (if api = ''pyside'' then
        seq (assign_from E ''Signal'' QtCore ''Signal'')
       (seq (assign_from E ''Slot'' QtCore ''Slot'')
       (seq (assign_from E ''Property'' QtCore ''Property'')
       (seq (assign_from E ''QApplication'' QtGui ''QApplication'')
       (seq (assign_from E ''QWidget'' QtGui ''QWidget'')
            (assign_from E ''qInstallMsgHandler'' QtCore ''qInstallMsgHandler'')))))
      else if api \<in> set [''pyqt4'', ''pyqt4v2'', ''pyqt5''] then
        seq (assign_from E ''Signal'' QtCore ''pyqtSignal'')
       (seq (assign_from E ''Slot'' QtCore ''pyqtSlot'')
       (seq (assign_from E ''Property'' QtCore ''pyqtProperty'')
            (if api = ''pyqt5'' then
               bind (import_module E root ''QtWidgets'') (\<lambda>QtWidgets.
               seq (assign_from E ''QApplication'' QtWidgets ''QApplication'')
              (seq (assign_from E ''QWidget'' QtWidgets ''QWidget'')
                   (assign_from E ''qInstallMessageHandler'' QtCore ''qInstallMessageHandler'')))
             else
               seq (assign_from E ''QApplication'' QtGui ''QApplication'')
              (seq (assign_from E ''QWidget'' QtGui ''QWidget'')
                   (assign_from E ''qInstallMsgHandler'' QtCore ''qInstallMsgHandler'')))))
      else return ())"

text \<open>The whole method (lines 29-129).\<close>

definition set_qt_api :: "env \<Rightarrow> string option \<Rightarrow> unit M" where
  "set_qt_api E qt_api_arg =
     bind (resolve_qt_api E qt_api_arg) (\<lambda>api.
     seq (setattr_self ''pytest_qt_api'' (Str api))
    (bind (root_module_of api) (\<lambda>root.
     seq (if api = ''pyqt4v2'' then select_v2_api E else return ())
    (bind (import_module E root ''QtCore'') (\<lambda>QtCore.
     seq (setattr_self ''QtCore'' (Module QtCore))
    (bind (import_module E root ''QtGui'') (\<lambda>QtGui.
     seq (setattr_self ''QtGui'' (Module QtGui))
    (bind (import_module E root ''QtTest'') (\<lambda>QtTest.
     seq (setattr_self ''QtTest'' (Module QtTest))
    (seq (bind_common E QtCore)
         (bind_specific E api root QtCore QtGui)))))))))))"

section \<open>\<^verbatim>\<open>_QtApi.get_versions\<close>\<close>

text \<open>The named tuple \<^verbatim>\<open>VersionTuple\<close> (line 18).\<close>

record VersionTuple =
  qt_api :: pyval
  qt_api_version :: pyval
  runtime :: pyval
  compiled :: pyval

text \<open>\<^verbatim>\<open>self.name\<close>: an attribute that was never assigned raises \<^verbatim>\<open>AttributeError\<close>.\<close>

definition getattr_self :: "string \<Rightarrow> pyval M" where
  "getattr_self name = (\<lambda>s. case attrs s name of
                              Some v \<Rightarrow> (Inr v, s)
                            | None \<Rightarrow> (Inl (AttributeError ''self'' name), s))"

text \<open>
  \<^verbatim>\<open>getattr(v, name)\<close> for a value read back from \<^verbatim>\<open>self\<close>: a module answers as
  the environment says; the other values of the model carry no attributes.
\<close>

definition getattr_val :: "env \<Rightarrow> pyval \<Rightarrow> string \<Rightarrow> pyval M" where
  "getattr_val E v name =
     (case v of
        Module m \<Rightarrow> getattr_mod E m name
      | _ \<Rightarrow> raise (AttributeError ''object'' name))"

text \<open>Lines 131-139. The arguments of \<^verbatim>\<open>VersionTuple(...)\<close> are evaluated left to right.\<close>

definition get_versions :: "env \<Rightarrow> VersionTuple M" where
  "get_versions E =
     bind (getattr_self ''pytest_qt_api'') (\<lambda>api.
       if api = Str ''pyside'' then
         seq (py_import E ''PySide'')
        (bind (getattr_mod E ''PySide'' ''__version__'') (\<lambda>v.
         bind (getattr_self ''QtCore'') (\<lambda>core1.
         bind (getattr_val E core1 ''qVersion'') (\<lambda>qVersion.
         bind (getattr_self ''QtCore'') (\<lambda>core2.
         bind (getattr_val E core2 ''__version__'') (\<lambda>c.
         return \<lparr>qt_api = Str ''PySide'', qt_api_version = v,
                  runtime = Call qVersion, compiled = c\<rparr>))))))
       else
         bind (getattr_self ''pytest_qt_api'') (\<lambda>api2.
         let qt_api_name = (if api2 = Str ''pyqt5'' then ''PyQt5'' else ''PyQt4'') in
         bind (getattr_self ''QtCore'') (\<lambda>core1.
         bind (getattr_val E core1 ''PYQT_VERSION_STR'') (\<lambda>v.
         bind (getattr_self ''QtCore'') (\<lambda>core2.
         bind (getattr_val E core2 ''qVersion'') (\<lambda>qVersion.
         bind (getattr_self ''QtCore'') (\<lambda>core3.
         bind (getattr_val E core3 ''QT_VERSION_STR'') (\<lambda>c.
         return \<lparr>qt_api = Str qt_api_name, qt_api_version = v,
                  runtime = Call qVersion, compiled = c\<rparr>))))))))"

section \<open>The candidates of auto-detection, and sample data\<close>

text \<open>
  The specification's fixed priority list of auto-detection: each candidate package with
  the value of \<^verbatim>\<open>qt_api\<close> that stands for it, the PySide binding first, then
  PyQt4 and PyQt5.
\<close>

definition probe_order :: "(string \<times> string) list" where
  "probe_order = [(''PySide'', ''pyside''), (''PyQt4'', ''pyqt4''), (''PyQt5'', ''pyqt5'')]"

text \<open>
  An environment with the given variables and installed packages, in which every
  installed module has every attribute asked for and \<^verbatim>\<open>sip\<close> accepts every call;
  and an object on which \<^verbatim>\<open>set_qt_api\<close> has not run yet.
\<close>

definition sample_env :: "(string \<rightharpoonup> string) \<Rightarrow> string list \<Rightarrow> env" where
  "sample_env vars installed =
     \<lparr>environ = vars, importable = (\<lambda>n. n \<in> set installed),
      has_attr = (\<lambda>_ _. True), setapi_ok = (\<lambda>_ _. True)\<rparr>"

definition fresh :: state where
  "fresh = \<lparr>attrs = Map.empty, trace = []\<rparr>"

section \<open>Predicates on runs\<close>

text \<open>A computation keeps the attribute \<open>k\<close> of \<^verbatim>\<open>self\<close> as it found it.\<close>

definition keeps :: "string \<Rightarrow> 'a M \<Rightarrow> bool" where
  "keeps k m = (\<forall>s r s'. m s = (r, s') \<longrightarrow> attrs s' k = attrs s k)"

text \<open>A computation only appends events, and each of them satisfies \<open>P\<close>.\<close>

definition emits :: "(event \<Rightarrow> bool) \<Rightarrow> 'a M \<Rightarrow> bool" where
  "emits P m =
     (\<forall>s r s'. m s = (r, s') \<longrightarrow> (\<exists>evs. trace s' = trace s @ evs \<and> list_all P evs))"

section \<open>Running the primitives\<close>

lemma force_flag_iff:
  "(environ_get E ''PYTEST_QT_FORCE_PYQT'' ''false'' = ''true'') \<longleftrightarrow>
   environ E ''PYTEST_QT_FORCE_PYQT'' = Some ''true''"
  by (simp add: environ_get_def split: option.split)

lemma bind_Inr_iff:
  "bind m f s = (Inr y, s') \<longleftrightarrow> (\<exists>x s1. m s = (Inr x, s1) \<and> f x s1 = (Inr y, s'))"
  by (auto simp: bind_def split: prod.splits sum.splits)

lemma seq_Inr_iff:
  "seq m k s = (Inr y, s') \<longleftrightarrow> (\<exists>s1. m s = (Inr (), s1) \<and> k s1 = (Inr y, s'))"
  by (simp add: seq_def bind_Inr_iff)

lemma bind_Inl: "m s = (Inl e, s1) \<Longrightarrow> bind m f s = (Inl e, s1)"
  by (simp add: bind_def)

lemma bind_Inr: "m s = (Inr x, s1) \<Longrightarrow> bind m f s = f x s1"
  by (simp add: bind_def)

lemma return_Inr_iff: "return x s = (Inr y, s') \<longleftrightarrow> y = x \<and> s' = s"
  by (auto simp: return_def)

lemma raise_Inr_iff: "raise e s = (Inr y, s') \<longleftrightarrow> False"
  by (simp add: raise_def)

lemma setattr_self_Inr_iff:
  "setattr_self n v s = (Inr y, s') \<longleftrightarrow> s' = s\<lparr>attrs := (attrs s)(n \<mapsto> v)\<rparr>"
  by (auto simp: setattr_self_def)

lemma assign_from_Inr_iff:
  "assign_from E dst m src s = (Inr y, s') \<longleftrightarrow>
     has_attr E m src \<and> s' = s\<lparr>attrs := (attrs s)(dst \<mapsto> Sym m src)\<rparr>"
  by (auto simp: assign_from_def getattr_mod_def bind_Inr_iff return_Inr_iff raise_Inr_iff
        setattr_self_Inr_iff)

lemma import_module_Inr_iff:
  "import_module E root n s = (Inr y, s') \<longleftrightarrow>
     importable E root \<and> has_attr E root n \<and> y = root @ ''.'' @ n \<and>
     s' = s\<lparr>trace := trace s @ [ImportFrom root n]\<rparr>"
  by (auto simp: import_module_def seq_Inr_iff log_event_def return_Inr_iff raise_Inr_iff)

lemma root_module_of_Inr_iff:
  "root_module_of api s = (Inr r, s') \<longleftrightarrow> root_modules api = Some r \<and> s' = s"
  by (auto simp: root_module_of_def return_def raise_def split: option.splits)

lemmas run_simps = bind_Inr_iff seq_Inr_iff return_Inr_iff raise_Inr_iff setattr_self_Inr_iff
  assign_from_Inr_iff import_module_Inr_iff root_module_of_Inr_iff

lemma try_import_eq:
  "try_import E n s = (Inr (importable E n), s\<lparr>trace := trace s @ [Import n]\<rparr>)"
  by (simp add: try_import_def py_import_def seq_def bind_def log_event_def return_def raise_def)

lemma root_modules_known: "root_modules api = Some r \<Longrightarrow> api \<in> set known_apis"
  by (auto simp: root_modules_def known_apis_def split: if_splits)

lemma root_modules_unknown: "api \<notin> set known_apis \<Longrightarrow> root_modules api = None"
  by (auto simp: root_modules_def known_apis_def)

section \<open>The blocks of \<^verbatim>\<open>set_qt_api\<close>\<close>

lemma set_qt_api_resolve_fails:
  "resolve_qt_api E a s = (Inl e, s1) \<Longrightarrow> set_qt_api E a s = (Inl e, s1)"
  by (simp add: set_qt_api_def bind_Inl)

lemma bind_common_Inr:
  assumes "bind_common E core s = (Inr (), s')"
  shows "attrs s' ''qInstallMsgHandler'' = Some PyNone"
    and "attrs s' ''qInstallMessageHandler'' = Some PyNone"
  using assms by (auto simp: bind_common_def run_simps)

lemma bind_specific_Inr:
  assumes "bind_specific E api root core gui s = (Inr (), s')"
      and "api \<in> set known_apis"
      and "attrs s ''qInstallMsgHandler'' = Some PyNone"
      and "attrs s ''qInstallMessageHandler'' = Some PyNone"
  shows "api = ''pyqt5'' \<Longrightarrow> attrs s' ''qInstallMsgHandler'' = Some PyNone \<and>
           attrs s' ''qInstallMessageHandler'' = Some (Sym core ''qInstallMessageHandler'')"
    and "api \<noteq> ''pyqt5'' \<Longrightarrow> attrs s' ''qInstallMessageHandler'' = Some PyNone \<and>
           attrs s' ''qInstallMsgHandler'' = Some (Sym core ''qInstallMsgHandler'')"
  using assms by (auto simp: bind_specific_def known_apis_def run_simps)

lemma set_qt_api_success:
  assumes "resolve_qt_api E a s = (Inr api, s1)" and "set_qt_api E a s = (Inr (), s')"
  shows "\<exists>root s2 s3. root_modules api = Some root
           \<and> bind_common E (root @ ''.QtCore'') s2 = (Inr (), s3)
           \<and> bind_specific E api root (root @ ''.QtCore'') (root @ ''.QtGui'') s3 = (Inr (), s')"
  using assms(2) unfolding set_qt_api_def
  by (auto simp: bind_Inr_iff seq_Inr_iff assms(1) root_module_of_Inr_iff import_module_Inr_iff)

subsection \<open>No later statement assigns \<^verbatim>\<open>self.pytest_qt_api\<close>\<close>

lemma keeps_return: "keeps k (return x)"
  by (simp add: keeps_def return_def)

lemma keeps_raise: "keeps k (raise e)"
  by (simp add: keeps_def raise_def)

lemma keeps_log_event: "keeps k (log_event e)"
  by (auto simp: keeps_def log_event_def)

lemma keeps_setattr_self: "k \<noteq> n \<Longrightarrow> keeps k (setattr_self n v)"
  by (auto simp: keeps_def setattr_self_def)

lemma keeps_bind: "keeps k m \<Longrightarrow> (\<And>x. keeps k (f x)) \<Longrightarrow> keeps k (bind m f)"
  unfolding keeps_def bind_def by (fastforce split: prod.splits sum.splits)

lemma keeps_seq: "keeps k m \<Longrightarrow> keeps k n \<Longrightarrow> keeps k (seq m n)"
  by (simp add: seq_def keeps_bind)

lemma keeps_if:
  "(c \<Longrightarrow> keeps k m) \<Longrightarrow> (\<not> c \<Longrightarrow> keeps k n) \<Longrightarrow> keeps k (if c then m else n)"
  by simp

lemma keeps_assign_from: "k \<noteq> dst \<Longrightarrow> keeps k (assign_from E dst m src)"
  by (simp add: assign_from_def getattr_mod_def keeps_bind keeps_return keeps_raise
        keeps_setattr_self)

lemma keeps_import_module: "keeps k (import_module E r n)"
  by (simp add: import_module_def keeps_seq keeps_log_event keeps_return keeps_raise)

lemma keeps_py_import: "keeps k (py_import E n)"
  by (simp add: py_import_def keeps_seq keeps_log_event keeps_return keeps_raise)

lemma keeps_sip_setapi: "keeps k (sip_setapi E n v)"
  by (simp add: sip_setapi_def keeps_seq keeps_log_event keeps_return keeps_raise)

lemma keeps_select_v2_api: "keeps k (select_v2_api E)"
  by (simp add: select_v2_api_def keeps_seq keeps_py_import keeps_sip_setapi)

lemma keeps_root_module_of: "keeps k (root_module_of api)"
  by (simp add: root_module_of_def keeps_return keeps_raise split: option.split)

lemma keeps_bind_common: "keeps ''pytest_qt_api'' (bind_common E core)"
  by (simp add: bind_common_def keeps_seq keeps_assign_from keeps_setattr_self)

lemma keeps_bind_specific: "keeps ''pytest_qt_api'' (bind_specific E api root core gui)"
  by (simp add: bind_specific_def keeps_seq keeps_bind keeps_assign_from keeps_import_module
        keeps_return)

text \<open>
  Whatever happens after line 62, the resolved value stays in \<^verbatim>\<open>self.pytest_qt_api\<close>.
\<close>

lemma discriminant_stored:
  assumes "resolve_qt_api E a s = (Inr api, s1)" and "set_qt_api E a s = (r, s')"
  shows "attrs s' ''pytest_qt_api'' = Some (Str api)"
proof -
  let ?rest = "bind (root_module_of api) (\<lambda>root.
     seq (if api = ''pyqt4v2'' then select_v2_api E else return ())
    (bind (import_module E root ''QtCore'') (\<lambda>QtCore.
     seq (setattr_self ''QtCore'' (Module QtCore))
    (bind (import_module E root ''QtGui'') (\<lambda>QtGui.
     seq (setattr_self ''QtGui'' (Module QtGui))
    (bind (import_module E root ''QtTest'') (\<lambda>QtTest.
     seq (setattr_self ''QtTest'' (Module QtTest))
    (seq (bind_common E QtCore)
         (bind_specific E api root QtCore QtGui)))))))))"
  let ?s2 = "s1\<lparr>attrs := (attrs s1)(''pytest_qt_api'' \<mapsto> Str api)\<rparr>"
  have k: "keeps ''pytest_qt_api'' ?rest"
    by (intro keeps_bind keeps_seq keeps_if keeps_root_module_of keeps_select_v2_api
          keeps_return keeps_import_module keeps_setattr_self keeps_bind_common
          keeps_bind_specific) simp_all
  have "set_qt_api E a s = ?rest ?s2"
    using assms(1) by (simp add: set_qt_api_def bind_Inr seq_def setattr_self_def)
  with assms(2) have "?rest ?s2 = (r, s')" by simp
  with k have "attrs s' ''pytest_qt_api'' = attrs ?s2 ''pytest_qt_api''"
    unfolding keeps_def by blast
  then show ?thesis by simp
qed

subsection \<open>Only the resolution reads \<^verbatim>\<open>os.environ\<close>\<close>

lemma py_import_environ: "py_import (E\<lparr>environ := ev\<rparr>) = py_import E"
  by (simp add: fun_eq_iff py_import_def)

lemma try_import_environ: "try_import (E\<lparr>environ := ev\<rparr>) = try_import E"
  by (simp add: fun_eq_iff try_import_def py_import_environ)

lemma guess_qt_api_environ: "guess_qt_api (E\<lparr>environ := ev\<rparr>) = guess_qt_api E"
  by (simp add: guess_qt_api_def try_import_environ cong: if_cong)

lemma select_v2_api_environ: "select_v2_api (E\<lparr>environ := ev\<rparr>) = select_v2_api E"
  by (simp add: select_v2_api_def sip_setapi_def py_import_environ)

lemma import_module_environ: "import_module (E\<lparr>environ := ev\<rparr>) = import_module E"
  by (simp add: fun_eq_iff import_module_def)

lemma assign_from_environ: "assign_from (E\<lparr>environ := ev\<rparr>) = assign_from E"
  by (simp add: fun_eq_iff assign_from_def getattr_mod_def)

lemma bind_common_environ: "bind_common (E\<lparr>environ := ev\<rparr>) = bind_common E"
  by (simp add: fun_eq_iff bind_common_def assign_from_environ)

lemma bind_specific_environ: "bind_specific (E\<lparr>environ := ev\<rparr>) = bind_specific E"
  by (simp add: fun_eq_iff bind_specific_def assign_from_environ import_module_environ
        cong: if_cong)

lemmas environ_update_irrelevant = guess_qt_api_environ select_v2_api_environ
  import_module_environ bind_common_environ bind_specific_environ

lemma resolve_flag_unset:
  assumes "environ E ''PYTEST_QT_FORCE_PYQT'' \<noteq> Some ''true''"
  shows "resolve_qt_api (E\<lparr>environ := (environ E)(''PYTEST_QT_FORCE_PYQT'' := None)\<rparr>) a
           = resolve_qt_api E a"
  using assms
  by (simp add: resolve_qt_api_def force_flag_iff environ_update_irrelevant
        cong: if_cong option.case_cong)

text \<open>The installer slots of an object on which \<^verbatim>\<open>set_qt_api\<close> returned.\<close>

lemma slots_after_success:
  assumes "resolve_qt_api E a s = (Inr api, s1)"
      and "set_qt_api E a s = (Inr (), s')"
  shows "api \<in> set known_apis
       \<and> (\<exists>root. root_modules api = Some root
           \<and> (if api = ''pyqt5''
              then attrs s' ''qInstallMsgHandler'' = Some PyNone
                 \<and> attrs s' ''qInstallMessageHandler'' =
                     Some (Sym (root @ ''.QtCore'') ''qInstallMessageHandler'')
              else attrs s' ''qInstallMsgHandler'' =
                     Some (Sym (root @ ''.QtCore'') ''qInstallMsgHandler'')
                 \<and> attrs s' ''qInstallMessageHandler'' = Some PyNone))"
proof -
  from set_qt_api_success [OF assms] obtain root s2 s3 where
    root: "root_modules api = Some root" and
    common: "bind_common E (root @ ''.QtCore'') s2 = (Inr (), s3)" and
    specific: "bind_specific E api root (root @ ''.QtCore'') (root @ ''.QtGui'') s3 = (Inr (), s')"
    by blast
  have known: "api \<in> set known_apis" using root by (rule root_modules_known)
  note slots = bind_specific_Inr [OF specific known bind_common_Inr [OF common]]
  show ?thesis
    using known root slots by (cases "api = ''pyqt5''") simp_all
qed

subsection \<open>Evaluation on sample data\<close>

lemmas run_defs = set_qt_api_def resolve_qt_api_def environ_get_def py_not_def lower_def
  lower_char_def known_apis_def bind_def seq_def return_def raise_def setattr_self_def
  root_module_of_def root_modules_def import_module_def log_event_def bind_common_def
  bind_specific_def assign_from_def getattr_mod_def guess_qt_api_def try_import_def
  py_import_def select_v2_api_def sip_setapi_def sample_env_def fresh_def

subsection \<open>The forced value, and the names bound for PyQt4\<close>

lemma resolve_forced:
  "environ E ''PYTEST_QT_FORCE_PYQT'' = Some ''true'' \<Longrightarrow>
   resolve_qt_api E a s = (Inr ''pyqt4'', s)"
  by (simp add: resolve_qt_api_def environ_get_def return_def)

lemma bind_specific_pyqt4_Inr:
  assumes "bind_specific E ''pyqt4'' root core gui s = (Inr (), s')"
  shows "attrs s' ''Signal'' = Some (Sym core ''pyqtSignal'')"
    and "attrs s' ''Slot'' = Some (Sym core ''pyqtSlot'')"
    and "attrs s' ''Property'' = Some (Sym core ''pyqtProperty'')"
  using assms by (auto simp: bind_specific_def run_simps)

subsection \<open>The events of a run\<close>

lemma emitsI:
  "(\<And>s r s'. m s = (r, s') \<Longrightarrow> \<exists>evs. trace s' = trace s @ evs \<and> list_all P evs) \<Longrightarrow> emits P m"
  by (simp add: emits_def)

lemma emitsD:
  "emits P m \<Longrightarrow> m s = (r, s') \<Longrightarrow> \<exists>evs. trace s' = trace s @ evs \<and> list_all P evs"
  by (simp add: emits_def)

lemma emits_return: "emits P (return x)"
  by (simp add: emits_def return_def)

lemma emits_raise: "emits P (raise e)"
  by (simp add: emits_def raise_def)

lemma emits_log_event: "P e \<Longrightarrow> emits P (log_event e)"
  by (auto simp: emits_def log_event_def)

lemma emits_setattr_self: "emits P (setattr_self n v)"
  by (auto simp: emits_def setattr_self_def)

lemma emits_bind:
  assumes "emits P m" and "\<And>x. emits P (f x)"
  shows "emits P (bind m f)"
proof (rule emitsI)
  fix s r s'
  assume run: "bind m f s = (r, s')"
  obtain r1 s1 where m: "m s = (r1, s1)" by (cases "m s")
  from emitsD [OF assms(1) m] obtain evs1 where
    evs1: "trace s1 = trace s @ evs1" "list_all P evs1" by blast
  show "\<exists>evs. trace s' = trace s @ evs \<and> list_all P evs"
  proof (cases r1)
    case (Inl e)
    with run m have "s' = s1" by (simp add: bind_def)
    with evs1 show ?thesis by blast
  next
    case (Inr x)
    with run m have "f x s1 = (r, s')" by (simp add: bind_def)
    from emitsD [OF assms(2) this] obtain evs2 where
      "trace s' = trace s1 @ evs2" "list_all P evs2" by blast
    with evs1 have "trace s' = trace s @ (evs1 @ evs2) \<and> list_all P (evs1 @ evs2)" by simp
    then show ?thesis by blast
  qed
qed

lemma emits_seq: "emits P m \<Longrightarrow> emits P k \<Longrightarrow> emits P (seq m k)"
  by (simp add: seq_def emits_bind)

lemma emits_if:
  "(c \<Longrightarrow> emits P m) \<Longrightarrow> (\<not> c \<Longrightarrow> emits P k) \<Longrightarrow> emits P (if c then m else k)"
  by simp

lemma emits_assign_from: "emits P (assign_from E dst m src)"
  by (simp add: assign_from_def getattr_mod_def emits_bind emits_return emits_raise
        emits_setattr_self)

lemma emits_import_module: "P (ImportFrom r n) \<Longrightarrow> emits P (import_module E r n)"
  by (simp add: import_module_def emits_seq emits_log_event emits_return emits_raise)

lemma emits_py_import: "P (Import n) \<Longrightarrow> emits P (py_import E n)"
  by (simp add: py_import_def emits_seq emits_log_event emits_return emits_raise)

lemma emits_sip_setapi: "P (SetApi n v) \<Longrightarrow> emits P (sip_setapi E n v)"
  by (simp add: sip_setapi_def emits_seq emits_log_event emits_return emits_raise)

lemma emits_root_module_of: "emits P (root_module_of api)"
  by (simp add: root_module_of_def emits_return emits_raise split: option.split)

lemma emits_select_v2_api: "emits (\<lambda>e. \<not> is_ImportFrom e) (select_v2_api E)"
  by (simp add: select_v2_api_def emits_seq emits_py_import emits_sip_setapi)

lemma emits_bind_common: "emits P (bind_common E core)"
  by (simp add: bind_common_def emits_seq emits_assign_from emits_setattr_self)

lemma emits_bind_specific:
  "emits (\<lambda>e. \<not> is_SetApi e) (bind_specific E api root core gui)"
  by (simp add: bind_specific_def emits_seq emits_bind emits_assign_from emits_import_module
        emits_return)

lemma emits_resolve_qt_api: "emits (\<lambda>e. \<not> is_SetApi e) (resolve_qt_api E a)"
proof (rule emitsI)
  fix s r s'
  assume "resolve_qt_api E a s = (r, s')"
  then have "trace s' = trace s \<or> trace s' = trace s @ [Import ''PySide'']
     \<or> trace s' = trace s @ [Import ''PySide'', Import ''PyQt4'']
     \<or> trace s' = trace s @ [Import ''PySide'', Import ''PyQt4'', Import ''PyQt5'']"
    by (auto simp: resolve_qt_api_def guess_qt_api_def bind_def try_import_eq return_def
          raise_def Let_def split: if_splits option.splits)
  then show "\<exists>evs. trace s' = trace s @ evs \<and> list_all (\<lambda>e. \<not> is_SetApi e) evs"
    by (elim disjE) (rule exI [of _ "[]"], simp, (rule exI, erule conjI, simp)+)
qed

lemma resolve_v2_silent:
  "resolve_qt_api E a s = (Inr ''pyqt4v2'', s1) \<Longrightarrow> s1 = s"
  by (auto simp: resolve_qt_api_def guess_qt_api_def bind_def try_import_eq return_def
        raise_def Let_def split: if_splits option.splits)

lemma import_module_trace:
  "import_module E r n s = (res, s1) \<Longrightarrow> trace s1 = trace s @ [ImportFrom r n]"
  by (auto simp: import_module_def seq_def bind_def log_event_def return_def raise_def
        split: if_splits)

lemma py_import_Inr_iff:
  "py_import E n s = (Inr y, s') \<longleftrightarrow> importable E n \<and> s' = s\<lparr>trace := trace s @ [Import n]\<rparr>"
  by (auto simp: py_import_def seq_Inr_iff log_event_def return_Inr_iff raise_Inr_iff)

lemma sip_setapi_Inr_iff:
  "sip_setapi E n v s = (Inr y, s') \<longleftrightarrow>
     setapi_ok E n v \<and> s' = s\<lparr>trace := trace s @ [SetApi n v]\<rparr>"
  by (auto simp: sip_setapi_def seq_Inr_iff log_event_def return_Inr_iff raise_Inr_iff)

lemma select_v2_api_Inr:
  "select_v2_api E s = (Inr (), s') \<Longrightarrow>
   trace s' = trace s @ Import ''sip'' # map (\<lambda>n. SetApi n 2)
      [''QDate'', ''QDateTime'', ''QString'', ''QTextStream'', ''QTime'', ''QUrl'', ''QVariant'']"
  by (auto simp: select_v2_api_def seq_Inr_iff py_import_Inr_iff sip_setapi_Inr_iff)


lemma after_resolution:
  assumes "resolve_qt_api E a s = (Inr api, s1)"
  shows "set_qt_api E a s =
     bind (root_module_of api) (\<lambda>root.
     seq (if api = ''pyqt4v2'' then select_v2_api E else return ())
    (bind (import_module E root ''QtCore'') (\<lambda>QtCore.
     seq (setattr_self ''QtCore'' (Module QtCore))
    (bind (import_module E root ''QtGui'') (\<lambda>QtGui.
     seq (setattr_self ''QtGui'' (Module QtGui))
    (bind (import_module E root ''QtTest'') (\<lambda>QtTest.
     seq (setattr_self ''QtTest'' (Module QtTest))
    (seq (bind_common E QtCore)
         (bind_specific E api root QtCore QtGui)))))))))
     (s1\<lparr>attrs := (attrs s1)(''pytest_qt_api'' \<mapsto> Str api)\<rparr>)"
  using assms by (simp add: set_qt_api_def bind_Inr seq_def setattr_self_def)

lemma emits_bind_names:
  "emits (\<lambda>e. \<not> is_SetApi e)
     (seq (setattr_self ''QtCore'' (Module QtCore))
    (bind (import_module E root ''QtGui'') (\<lambda>QtGui.
     seq (setattr_self ''QtGui'' (Module QtGui))
    (bind (import_module E root ''QtTest'') (\<lambda>QtTest.
     seq (setattr_self ''QtTest'' (Module QtTest))
    (seq (bind_common E QtCore)
         (bind_specific E api root QtCore QtGui)))))))"
  by (intro emits_seq emits_bind emits_setattr_self emits_import_module emits_bind_common
        emits_bind_specific) simp_all

lemma no_setapi_without_v2:
  assumes "resolve_qt_api E a s = (Inr api, s1)" and "api \<noteq> ''pyqt4v2''"
      and "set_qt_api E a s = (r, s')"
  shows "\<exists>evs. trace s' = trace s @ evs \<and> list_all (\<lambda>e. \<not> is_SetApi e) evs"
proof -
  from emitsD [OF emits_resolve_qt_api assms(1)] obtain pre where
    pre: "trace s1 = trace s @ pre" "list_all (\<lambda>e. \<not> is_SetApi e) pre" by blast
  let ?s2 = "s1\<lparr>attrs := (attrs s1)(''pytest_qt_api'' \<mapsto> Str api)\<rparr>"
  let ?rest = "bind (root_module_of api) (\<lambda>root.
     seq (return ())
    (bind (import_module E root ''QtCore'') (\<lambda>QtCore.
     seq (setattr_self ''QtCore'' (Module QtCore))
    (bind (import_module E root ''QtGui'') (\<lambda>QtGui.
     seq (setattr_self ''QtGui'' (Module QtGui))
    (bind (import_module E root ''QtTest'') (\<lambda>QtTest.
     seq (setattr_self ''QtTest'' (Module QtTest))
    (seq (bind_common E QtCore)
         (bind_specific E api root QtCore QtGui)))))))))"
  have "emits (\<lambda>e. \<not> is_SetApi e) ?rest"
    by (intro emits_bind emits_seq emits_root_module_of emits_return emits_import_module
          emits_bind_names) simp_all
  moreover have "?rest ?s2 = (r, s')"
    using after_resolution [OF assms(1)] assms(2,3) by simp
  ultimately obtain evs where
    "trace s' = trace ?s2 @ evs" "list_all (\<lambda>e. \<not> is_SetApi e) evs"
    by (blast dest: emitsD)
  with pre have "trace s' = trace s @ (pre @ evs) \<and> list_all (\<lambda>e. \<not> is_SetApi e) (pre @ evs)"
    by simp
  then show ?thesis by blast
qed

lemma v2_before_core:
  assumes "resolve_qt_api E a s = (Inr ''pyqt4v2'', s1)"
      and "set_qt_api E a s = (r, s')"
  shows "\<exists>evs. trace s' = trace s @ evs \<and>
           (list_all (\<lambda>e. \<not> is_ImportFrom e) evs \<or>
            (\<exists>post. evs = Import ''sip'' # map (\<lambda>n. SetApi n 2)
                [''QDate'', ''QDateTime'', ''QString'', ''QTextStream'', ''QTime'', ''QUrl'',
                 ''QVariant'']
                @ ImportFrom ''PyQt4'' ''QtCore'' # post
              \<and> list_all (\<lambda>e. \<not> is_SetApi e) post))"
proof -
  have s1: "s1 = s" using assms(1) by (rule resolve_v2_silent)
  let ?s2 = "s\<lparr>attrs := (attrs s)(''pytest_qt_api'' \<mapsto> Str ''pyqt4v2'')\<rparr>"
  let ?names = "\<lambda>QtCore.
     seq (setattr_self ''QtCore'' (Module QtCore))
    (bind (import_module E ''PyQt4'' ''QtGui'') (\<lambda>QtGui.
     seq (setattr_self ''QtGui'' (Module QtGui))
    (bind (import_module E ''PyQt4'' ''QtTest'') (\<lambda>QtTest.
     seq (setattr_self ''QtTest'' (Module QtTest))
    (seq (bind_common E QtCore)
         (bind_specific E ''pyqt4v2'' ''PyQt4'' QtCore QtGui))))))"
  let ?load = "bind (import_module E ''PyQt4'' ''QtCore'') ?names"
  have run: "seq (select_v2_api E) ?load ?s2 = (r, s')"
    using after_resolution [OF assms(1)] assms(2) s1
    by (simp add: root_module_of_def root_modules_def bind_def return_def)
  obtain r3 s3 where sel: "select_v2_api E ?s2 = (r3, s3)" by (cases "select_v2_api E ?s2")
  show ?thesis
  proof (cases r3)
    case (Inl e)
    with run sel have "s' = s3" by (simp add: seq_def bind_def)
    moreover from emitsD [OF emits_select_v2_api sel] obtain evs where
      "trace s3 = trace ?s2 @ evs" "list_all (\<lambda>e. \<not> is_ImportFrom e) evs" by blast
    ultimately have "trace s' = trace s @ evs \<and> list_all (\<lambda>e. \<not> is_ImportFrom e) evs"
      by simp
    then show ?thesis by blast
  next
    case (Inr u)
    let ?sel = "Import ''sip'' # map (\<lambda>n. SetApi n 2)
       [''QDate'', ''QDateTime'', ''QString'', ''QTextStream'', ''QTime'', ''QUrl'', ''QVariant'']"
    from Inr sel have sel': "select_v2_api E ?s2 = (Inr (), s3)" by simp
    then have t3: "trace s3 = trace s @ ?sel"
      using select_v2_api_Inr [OF sel'] by simp
    from run sel' have load: "?load s3 = (r, s')" by (simp add: seq_def bind_def)
    obtain r4 s4 where imp: "import_module E ''PyQt4'' ''QtCore'' s3 = (r4, s4)"
      by (cases "import_module E ''PyQt4'' ''QtCore'' s3")
    have t4: "trace s4 = trace s3 @ [ImportFrom ''PyQt4'' ''QtCore'']"
      using imp by (rule import_module_trace)
    have "\<exists>post. trace s' = trace s4 @ post \<and> list_all (\<lambda>e. \<not> is_SetApi e) post"
    proof (cases r4)
      case (Inl e)
      with load imp have "s' = s4" by (simp add: bind_def)
      then show ?thesis by simp
    next
      case (Inr core)
      with load imp have "?names core s4 = (r, s')" by (simp add: bind_def)
      from emitsD [OF emits_bind_names this] show ?thesis .
    qed
    then obtain post where
      post: "trace s' = trace s4 @ post" "list_all (\<lambda>e. \<not> is_SetApi e) post" by blast
    have "trace s' = trace s @ (?sel @ ImportFrom ''PyQt4'' ''QtCore'' # post)"
      using post(1) t4 t3 by simp
    with post(2) show ?thesis
      by (intro exI [of _ "?sel @ ImportFrom ''PyQt4'' ''QtCore'' # post"] conjI disjI2
            exI [of _ post]) simp_all
  qed
qed

subsection \<open>Running \<^verbatim>\<open>get_versions\<close>\<close>

lemma getattr_self_eq:
  "attrs s n = Some v \<Longrightarrow> getattr_self n s = (Inr v, s)"
  by (simp add: getattr_self_def)

lemma getattr_val_Module:
  "getattr_val E (Module m) n s =
     (if has_attr E m n then (Inr (Sym m n), s) else (Inl (AttributeError m n), s))"
  by (simp add: getattr_val_def getattr_mod_def return_def raise_def)

lemma get_versions_pyqt:
  assumes "attrs s ''pytest_qt_api'' = Some (Str api)"
      and "api \<noteq> ''pyside''"
      and "attrs s ''QtCore'' = Some (Module core)"
  shows "get_versions E s =
     (if \<not> has_attr E core ''PYQT_VERSION_STR'' then
        (Inl (AttributeError core ''PYQT_VERSION_STR''), s)
      else if \<not> has_attr E core ''qVersion'' then
        (Inl (AttributeError core ''qVersion''), s)
      else if \<not> has_attr E core ''QT_VERSION_STR'' then
        (Inl (AttributeError core ''QT_VERSION_STR''), s)
      else
        (Inr \<lparr>qt_api = Str (if api = ''pyqt5'' then ''PyQt5'' else ''PyQt4''),
              qt_api_version = Sym core ''PYQT_VERSION_STR'',
              runtime = Call (Sym core ''qVersion''),
              compiled = Sym core ''QT_VERSION_STR''\<rparr>, s))"
  using assms
  by (simp add: get_versions_def bind_def getattr_self_eq getattr_val_Module return_def Let_def)

section \<open>Properties of the constructed object\<close>

text \<open>
  C1. For each value pyside, pyqt4, pyqt4v2, pyqt5 of \<^verbatim>\<open>qt_api\<close>: on an object on
  which \<^verbatim>\<open>set_qt_api\<close> returned, both installer slots are assigned, exactly one of
  them holds a symbol of the binding's \<^verbatim>\<open>QtCore\<close> module and the other holds
  \<^verbatim>\<open>None\<close>: for pyqt5 the symbol is in \<^verbatim>\<open>qInstallMessageHandler\<close>, for the
  three others in \<^verbatim>\<open>qInstallMsgHandler\<close>. No other value of \<^verbatim>\<open>qt_api\<close> lets
  \<^verbatim>\<open>set_qt_api\<close> return.
\<close>

theorem installer_slots_exactly_one:
  assumes "resolve_qt_api E a s = (Inr api, s1)"
      and "set_qt_api E a s = (Inr (), s')"
  shows "api \<in> set known_apis
       \<and> attrs s' ''pytest_qt_api'' = Some (Str api)
       \<and> {''qInstallMsgHandler'', ''qInstallMessageHandler''} \<subseteq> dom (attrs s')
       \<and> (attrs s' ''qInstallMsgHandler'' = Some PyNone)
           \<noteq> (attrs s' ''qInstallMessageHandler'' = Some PyNone)
       \<and> (\<exists>root. root_modules api = Some root
           \<and> (if api = ''pyqt5''
              then attrs s' ''qInstallMsgHandler'' = Some PyNone
                 \<and> attrs s' ''qInstallMessageHandler'' =
                     Some (Sym (root @ ''.QtCore'') ''qInstallMessageHandler'')
              else attrs s' ''qInstallMsgHandler'' =
                     Some (Sym (root @ ''.QtCore'') ''qInstallMsgHandler'')
                 \<and> attrs s' ''qInstallMessageHandler'' = Some PyNone))"
  using slots_after_success [OF assms] discriminant_stored [OF assms]
  by (auto split: if_splits)

theorem installer_slots_exactly_one_witness:
  "fst (set_qt_api (sample_env [''PYTEST_QT_API'' \<mapsto> ''pyqt5''] [''PyQt5'']) None fresh) = Inr ()
   \<and> attrs (snd (set_qt_api (sample_env [''PYTEST_QT_API'' \<mapsto> ''pyqt5''] [''PyQt5'']) None fresh))
        ''qInstallMsgHandler'' = Some PyNone
   \<and> attrs (snd (set_qt_api (sample_env [''PYTEST_QT_API'' \<mapsto> ''pyqt5''] [''PyQt5'']) None fresh))
        ''qInstallMessageHandler'' = Some (Sym ''PyQt5.QtCore'' ''qInstallMessageHandler'')
   \<and> fst (set_qt_api (sample_env Map.empty [''PySide'']) None fresh) = Inr ()
   \<and> attrs (snd (set_qt_api (sample_env Map.empty [''PySide'']) None fresh))
        ''qInstallMsgHandler'' = Some (Sym ''PySide.QtCore'' ''qInstallMsgHandler'')
   \<and> attrs (snd (set_qt_api (sample_env Map.empty [''PySide'']) None fresh))
        ''qInstallMessageHandler'' = Some PyNone
   \<and> fst (set_qt_api (sample_env Map.empty [''PyQt4'']) (Some ''pyqt4'') fresh) = Inr ()
   \<and> attrs (snd (set_qt_api (sample_env Map.empty [''PyQt4'']) (Some ''pyqt4'') fresh))
        ''qInstallMsgHandler'' = Some (Sym ''PyQt4.QtCore'' ''qInstallMsgHandler'')
   \<and> attrs (snd (set_qt_api (sample_env Map.empty [''PyQt4'']) (Some ''pyqt4'') fresh))
        ''qInstallMessageHandler'' = Some PyNone
   \<and> fst (set_qt_api (sample_env Map.empty [''PyQt4'', ''sip'']) (Some ''pyqt4v2'') fresh) = Inr ()
   \<and> attrs (snd (set_qt_api (sample_env Map.empty [''PyQt4'', ''sip'']) (Some ''pyqt4v2'') fresh))
        ''qInstallMsgHandler'' = Some (Sym ''PyQt4.QtCore'' ''qInstallMsgHandler'')
   \<and> attrs (snd (set_qt_api (sample_env Map.empty [''PyQt4'', ''sip'']) (Some ''pyqt4v2'') fresh))
        ''qInstallMessageHandler'' = Some PyNone"
proof -
  let ?E5 = "sample_env [''PYTEST_QT_API'' \<mapsto> ''pyqt5''] [''PyQt5'']"
  let ?ES = "sample_env Map.empty [''PySide'']"
  let ?E4 = "sample_env Map.empty [''PyQt4'']"
  let ?EV = "sample_env Map.empty [''PyQt4'', ''sip'']"
  have res5: "resolve_qt_api ?E5 None fresh = (Inr ''pyqt5'', fresh)"
    by (simp add: run_defs)
  have ok5: "fst (set_qt_api ?E5 None fresh) = Inr ()"
    by (simp add: run_defs)
  then have run5: "set_qt_api ?E5 None fresh = (Inr (), snd (set_qt_api ?E5 None fresh))"
    by (metis prod.collapse)
  have resS: "resolve_qt_api ?ES None fresh =
                (Inr ''pyside'', fresh\<lparr>trace := [Import ''PySide'']\<rparr>)"
    by (simp add: run_defs)
  have okS: "fst (set_qt_api ?ES None fresh) = Inr ()"
    by (simp add: run_defs)
  then have runS: "set_qt_api ?ES None fresh = (Inr (), snd (set_qt_api ?ES None fresh))"
    by (metis prod.collapse)
  have res4: "resolve_qt_api ?E4 (Some ''pyqt4'') fresh = (Inr ''pyqt4'', fresh)"
    by (simp add: run_defs)
  have ok4: "fst (set_qt_api ?E4 (Some ''pyqt4'') fresh) = Inr ()"
    by (simp add: run_defs)
  then have run4: "set_qt_api ?E4 (Some ''pyqt4'') fresh =
                     (Inr (), snd (set_qt_api ?E4 (Some ''pyqt4'') fresh))"
    by (metis prod.collapse)
  have resV: "resolve_qt_api ?EV (Some ''pyqt4v2'') fresh = (Inr ''pyqt4v2'', fresh)"
    by (simp add: run_defs)
  have okV: "fst (set_qt_api ?EV (Some ''pyqt4v2'') fresh) = Inr ()"
    by (simp add: run_defs)
  then have runV: "set_qt_api ?EV (Some ''pyqt4v2'') fresh =
                     (Inr (), snd (set_qt_api ?EV (Some ''pyqt4v2'') fresh))"
    by (metis prod.collapse)
  show ?thesis
    using ok5 okS ok4 okV installer_slots_exactly_one [OF res5 run5]
      installer_slots_exactly_one [OF resS runS] installer_slots_exactly_one [OF res4 run4]
      installer_slots_exactly_one [OF resV runV]
    by (simp add: root_modules_def)
qed

section \<open>Properties of the resolution\<close>

text \<open>
  C2 (as amended). When \<^verbatim>\<open>$PYTEST_QT_FORCE_PYQT\<close> is "true", the resolution returns
  pyqt4 whatever the override and \<^verbatim>\<open>$PYTEST_QT_API\<close> are, without probing and
  without touching the object; \<^verbatim>\<open>set_qt_api\<close> leaves pyqt4 in
  \<^verbatim>\<open>self.pytest_qt_api\<close>, and when it returns, the signal, slot and property
  names come from \<^verbatim>\<open>QtCore.pyqtSignal\<close>, \<^verbatim>\<open>QtCore.pyqtSlot\<close> and
  \<^verbatim>\<open>QtCore.pyqtProperty\<close> of PyQt4, the legacy installer slot holds
  \<^verbatim>\<open>QtCore.qInstallMsgHandler\<close> and the modern one holds \<^verbatim>\<open>None\<close>.
\<close>

theorem force_flag_selects_pyqt4:
  assumes "environ E ''PYTEST_QT_FORCE_PYQT'' = Some ''true''"
  shows "resolve_qt_api E a s = (Inr ''pyqt4'', s)
       \<and> attrs (snd (set_qt_api E a s)) ''pytest_qt_api'' = Some (Str ''pyqt4'')
       \<and> (fst (set_qt_api E a s) = Inr () \<longrightarrow>
            attrs (snd (set_qt_api E a s)) ''Signal'' = Some (Sym ''PyQt4.QtCore'' ''pyqtSignal'')
          \<and> attrs (snd (set_qt_api E a s)) ''Slot'' = Some (Sym ''PyQt4.QtCore'' ''pyqtSlot'')
          \<and> attrs (snd (set_qt_api E a s)) ''Property'' =
              Some (Sym ''PyQt4.QtCore'' ''pyqtProperty'')
          \<and> attrs (snd (set_qt_api E a s)) ''qInstallMsgHandler'' =
              Some (Sym ''PyQt4.QtCore'' ''qInstallMsgHandler'')
          \<and> attrs (snd (set_qt_api E a s)) ''qInstallMessageHandler'' = Some PyNone)"
proof -
  let ?r = "set_qt_api E a s"
  have res: "resolve_qt_api E a s = (Inr ''pyqt4'', s)"
    using assms by (rule resolve_forced)
  have stored: "attrs (snd ?r) ''pytest_qt_api'' = Some (Str ''pyqt4'')"
    using discriminant_stored [OF res, of "fst ?r" "snd ?r"] by simp
  have built: "attrs (snd ?r) ''Signal'' = Some (Sym ''PyQt4.QtCore'' ''pyqtSignal'')
          \<and> attrs (snd ?r) ''Slot'' = Some (Sym ''PyQt4.QtCore'' ''pyqtSlot'')
          \<and> attrs (snd ?r) ''Property'' = Some (Sym ''PyQt4.QtCore'' ''pyqtProperty'')
          \<and> attrs (snd ?r) ''qInstallMsgHandler'' =
              Some (Sym ''PyQt4.QtCore'' ''qInstallMsgHandler'')
          \<and> attrs (snd ?r) ''qInstallMessageHandler'' = Some PyNone"
    if ok: "fst ?r = Inr ()"
  proof -
    from ok have run: "?r = (Inr (), snd ?r)" by (metis prod.collapse)
    from set_qt_api_success [OF res run] obtain s3 where
      "bind_specific E ''pyqt4'' ''PyQt4'' (''PyQt4'' @ ''.QtCore'') (''PyQt4'' @ ''.QtGui'') s3
         = (Inr (), snd ?r)"
      by (auto simp: root_modules_def)
    from bind_specific_pyqt4_Inr [OF this] slots_after_success [OF res run]
    show ?thesis by (simp add: root_modules_def)
  qed
  show ?thesis using res stored built by blast
qed

theorem force_flag_selects_pyqt4_witness:
  "resolve_qt_api (sample_env [''PYTEST_QT_FORCE_PYQT'' \<mapsto> ''true'', ''PYTEST_QT_API'' \<mapsto> ''pyqt5'']
      [''PySide'', ''PyQt4'', ''PyQt5'']) (Some ''pyside'') fresh = (Inr ''pyqt4'', fresh)
   \<and> fst (set_qt_api (sample_env [''PYTEST_QT_FORCE_PYQT'' \<mapsto> ''true'', ''PYTEST_QT_API'' \<mapsto> ''pyqt5'']
      [''PySide'', ''PyQt4'', ''PyQt5'']) (Some ''pyside'') fresh) = Inr ()
   \<and> attrs (snd (set_qt_api (sample_env [''PYTEST_QT_FORCE_PYQT'' \<mapsto> ''true'', ''PYTEST_QT_API'' \<mapsto> ''pyqt5'']
      [''PySide'', ''PyQt4'', ''PyQt5'']) (Some ''pyside'') fresh)) ''qInstallMsgHandler''
      = Some (Sym ''PyQt4.QtCore'' ''qInstallMsgHandler'')"
proof -
  let ?E = "sample_env [''PYTEST_QT_FORCE_PYQT'' \<mapsto> ''true'', ''PYTEST_QT_API'' \<mapsto> ''pyqt5'']
      [''PySide'', ''PyQt4'', ''PyQt5'']"
  have flag: "environ ?E ''PYTEST_QT_FORCE_PYQT'' = Some ''true''"
    by (simp add: sample_env_def)
  have ok: "fst (set_qt_api ?E (Some ''pyside'') fresh) = Inr ()"
    by (simp add: run_defs)
  show ?thesis
    using ok force_flag_selects_pyqt4 [OF flag, of "Some ''pyside''" fresh] by simp
qed

text \<open>
  C2 as stated fails: with the flag set, the value chosen is not pyside, and the signal
  name of the object is bound to \<^verbatim>\<open>PyQt4.QtCore.pyqtSignal\<close>, not to a
  \<^verbatim>\<open>QtCore.Signal\<close>.
\<close>

theorem force_flag_not_pyside_counterexample:
  "fst (resolve_qt_api (sample_env [''PYTEST_QT_FORCE_PYQT'' \<mapsto> ''true''] [''PySide'', ''PyQt4'', ''PyQt5''])
          None fresh) \<noteq> Inr ''pyside''
   \<and> attrs (snd (set_qt_api (sample_env [''PYTEST_QT_FORCE_PYQT'' \<mapsto> ''true''] [''PySide'', ''PyQt4'', ''PyQt5''])
          None fresh)) ''pytest_qt_api'' = Some (Str ''pyqt4'')
   \<and> attrs (snd (set_qt_api (sample_env [''PYTEST_QT_FORCE_PYQT'' \<mapsto> ''true''] [''PySide'', ''PyQt4'', ''PyQt5''])
          None fresh)) ''Signal'' = Some (Sym ''PyQt4.QtCore'' ''pyqtSignal'')"
  by (simp add: run_defs)

text \<open>
  C3. When the force flag is not in effect, no override is passed, and
  \<^verbatim>\<open>$PYTEST_QT_API\<close> holds a non-empty value whose lower-cased form is none of
  pyside, pyqt4, pyqt4v2, pyqt5, then \<^verbatim>\<open>set_qt_api\<close> raises the configuration error
  (\<^verbatim>\<open>RuntimeError\<close> with the text "Invalid value for $PYTEST_QT_API") and leaves the
  object and the interpreter as they were: no attribute is assigned and nothing is imported.
\<close>

theorem invalid_configured_value_rejected:
  assumes "environ E ''PYTEST_QT_FORCE_PYQT'' \<noteq> Some ''true''"
      and "py_not a"
      and "environ E ''PYTEST_QT_API'' = Some v"
      and "v \<noteq> []"
      and "lower v \<notin> set known_apis"
  shows "set_qt_api E a s =
           (Inl (RuntimeError (''Invalid value for $PYTEST_QT_API: '' @ lower v)), s)"
proof -
  have "resolve_qt_api E a s =
          (Inl (RuntimeError (''Invalid value for $PYTEST_QT_API: '' @ lower v)), s)"
    using assms by (simp add: resolve_qt_api_def force_flag_iff raise_def)
  then show ?thesis by (rule set_qt_api_resolve_fails)
qed

theorem invalid_configured_value_rejected_witness:
  "set_qt_api (sample_env [''PYTEST_QT_API'' \<mapsto> ''PyQt6''] [''PySide'', ''PyQt4'', ''PyQt5''])
     None fresh =
     (Inl (RuntimeError ''Invalid value for $PYTEST_QT_API: pyqt6''), fresh)"
  using invalid_configured_value_rejected
          [of "sample_env [''PYTEST_QT_API'' \<mapsto> ''PyQt6''] [''PySide'', ''PyQt4'', ''PyQt5'']"
              None "''PyQt6''" fresh]
  by (simp add: sample_env_def py_not_def lower_def lower_char_def known_apis_def)

text \<open>
  C4. When the force flag is not in effect, no override is passed and
  \<^verbatim>\<open>$PYTEST_QT_API\<close> is not set, the packages are probed in the order PySide, PyQt4,
  PyQt5, the probing stops at the first package that can be imported, and the value that
  stands for that package is returned and left in \<^verbatim>\<open>self.pytest_qt_api\<close>. In
  particular, when exactly one candidate can be imported, its value is returned.
\<close>

theorem auto_detection_first_success:
  assumes "environ E ''PYTEST_QT_FORCE_PYQT'' \<noteq> Some ''true''"
      and "py_not a"
      and "environ E ''PYTEST_QT_API'' = None"
  shows "(find (\<lambda>c. importable E (fst c)) probe_order = Some (pkg, api) \<longrightarrow>
            resolve_qt_api E a s =
              (Inr api,
               s\<lparr>trace := trace s
                    @ map (\<lambda>c. Import (fst c))
                        (takeWhile (\<lambda>c. \<not> importable E (fst c)) probe_order)
                    @ [Import pkg]\<rparr>)
            \<and> attrs (snd (set_qt_api E a s)) ''pytest_qt_api'' = Some (Str api))
       \<and> ((pkg, api) \<in> set probe_order \<and> importable E pkg
            \<and> (\<forall>c \<in> set probe_order. importable E (fst c) \<longrightarrow> c = (pkg, api)) \<longrightarrow>
            fst (resolve_qt_api E a s) = Inr api)"
proof -
  have run: "set_qt_api E a s = (fst (set_qt_api E a s), snd (set_qt_api E a s))" by simp
  have first: "resolve_qt_api E a s =
              (Inr api,
               s\<lparr>trace := trace s
                    @ map (\<lambda>c. Import (fst c))
                        (takeWhile (\<lambda>c. \<not> importable E (fst c)) probe_order)
                    @ [Import pkg]\<rparr>)"
    if "find (\<lambda>c. importable E (fst c)) probe_order = Some (pkg, api)"
    using assms that
    by (auto simp: resolve_qt_api_def force_flag_iff guess_qt_api_def bind_def try_import_eq
          return_def probe_order_def split: if_splits)
  have only: "fst (resolve_qt_api E a s) = Inr api"
    if "(pkg, api) \<in> set probe_order" and "importable E pkg"
      and "\<forall>c \<in> set probe_order. importable E (fst c) \<longrightarrow> c = (pkg, api)"
    using assms that
    by (auto simp: resolve_qt_api_def force_flag_iff guess_qt_api_def bind_def try_import_eq
          return_def probe_order_def)
  show ?thesis
    using first discriminant_stored [OF first run] only by blast
qed

theorem auto_detection_first_success_witness:
  "resolve_qt_api (sample_env Map.empty [''PyQt5'']) None fresh =
     (Inr ''pyqt5'',
      fresh\<lparr>trace := trace fresh @ [Import ''PySide'', Import ''PyQt4'', Import ''PyQt5'']\<rparr>)
   \<and> attrs (snd (set_qt_api (sample_env Map.empty [''PyQt5'']) None fresh)) ''pytest_qt_api''
       = Some (Str ''pyqt5'')
   \<and> fst (resolve_qt_api (sample_env Map.empty [''PyQt5'']) None fresh) = Inr ''pyqt5''"
  using auto_detection_first_success
          [of "sample_env Map.empty [''PyQt5'']" None "''PyQt5''" "''pyqt5''" fresh]
  by (simp add: sample_env_def py_not_def probe_order_def)

text \<open>
  C5. When the force flag is not in effect, no override is passed,
  \<^verbatim>\<open>$PYTEST_QT_API\<close> is not set, and none of PySide, PyQt4, PyQt5 can be imported,
  \<^verbatim>\<open>set_qt_api\<close> raises the no-backend error (\<^verbatim>\<open>RuntimeError\<close> with the text
  "pytest-qt requires either PySide, PyQt4 or PyQt5 to be installed") after the three
  probes; no value is chosen and no attribute is assigned.
\<close>

theorem no_backend_found:
  assumes "environ E ''PYTEST_QT_FORCE_PYQT'' \<noteq> Some ''true''"
      and "py_not a"
      and "environ E ''PYTEST_QT_API'' = None"
      and "\<not> importable E ''PySide''"
      and "\<not> importable E ''PyQt4''"
      and "\<not> importable E ''PyQt5''"
  shows "set_qt_api E a s =
           (Inl (RuntimeError
              ''pytest-qt requires either PySide, PyQt4 or PyQt5 to be installed''),
            s\<lparr>trace := trace s @ [Import ''PySide'', Import ''PyQt4'', Import ''PyQt5'']\<rparr>)"
proof -
  have "resolve_qt_api E a s =
           (Inl (RuntimeError
              ''pytest-qt requires either PySide, PyQt4 or PyQt5 to be installed''),
            s\<lparr>trace := trace s @ [Import ''PySide'', Import ''PyQt4'', Import ''PyQt5'']\<rparr>)"
    using assms
    by (simp add: resolve_qt_api_def force_flag_iff guess_qt_api_def bind_def try_import_eq
          raise_def)
  then show ?thesis by (rule set_qt_api_resolve_fails)
qed

theorem no_backend_found_witness:
  "set_qt_api (sample_env Map.empty [''sip'']) None fresh =
     (Inl (RuntimeError ''pytest-qt requires either PySide, PyQt4 or PyQt5 to be installed''),
      fresh\<lparr>trace := trace fresh @ [Import ''PySide'', Import ''PyQt4'', Import ''PyQt5'']\<rparr>)"
  using no_backend_found [of "sample_env Map.empty [''sip'']" None fresh]
  by (simp add: sample_env_def py_not_def)

text \<open>
  C6. When the force flag is not in effect, no override is passed, and
  \<^verbatim>\<open>$PYTEST_QT_API\<close> holds a value \<open>v\<close> whose lower-cased form is one of pyside,
  pyqt4, pyqt4v2, pyqt5, the resolution returns the lower-cased form of \<open>v\<close> without
  touching the state, and \<^verbatim>\<open>set_qt_api\<close> leaves it in \<^verbatim>\<open>self.pytest_qt_api\<close>.
\<close>

theorem valid_configured_value_resolves:
  assumes "environ E ''PYTEST_QT_FORCE_PYQT'' \<noteq> Some ''true''"
      and "py_not a"
      and "environ E ''PYTEST_QT_API'' = Some v"
      and "lower v \<in> set known_apis"
  shows "resolve_qt_api E a s = (Inr (lower v), s)
       \<and> attrs (snd (set_qt_api E a s)) ''pytest_qt_api'' = Some (Str (lower v))"
proof -
  have res: "resolve_qt_api E a s = (Inr (lower v), s)"
    using assms by (simp add: resolve_qt_api_def force_flag_iff return_def)
  have "set_qt_api E a s = (fst (set_qt_api E a s), snd (set_qt_api E a s))" by simp
  from discriminant_stored [OF res this] res show ?thesis by simp
qed

theorem valid_configured_value_resolves_witness:
  "resolve_qt_api (sample_env [''PYTEST_QT_API'' \<mapsto> ''PyQt4v2''] [''PyQt4'', ''sip''])
      (Some []) fresh = (Inr ''pyqt4v2'', fresh)
   \<and> attrs (snd (set_qt_api (sample_env [''PYTEST_QT_API'' \<mapsto> ''PyQt4v2''] [''PyQt4'', ''sip''])
                   (Some []) fresh)) ''pytest_qt_api'' = Some (Str ''pyqt4v2'')"
  using valid_configured_value_resolves
          [of "sample_env [''PYTEST_QT_API'' \<mapsto> ''PyQt4v2''] [''PyQt4'', ''sip'']"
              "Some []" "''PyQt4v2''" fresh]
  by (simp add: sample_env_def py_not_def lower_def lower_char_def known_apis_def)

section \<open>Loading and reporting\<close>

text \<open>
  C7. Take any run of \<^verbatim>\<open>set_qt_api\<close> whose resolution returned a value, and the
  events it appended. When the value is pyqt4v2 and the run reached the import of a
  \<^verbatim>\<open>QtCore\<close> submodule, the events are: \<^verbatim>\<open>import sip\<close>, then
  \<^verbatim>\<open>sip.setapi(n, 2)\<close> for QDate, QDateTime, QString, QTextStream, QTime, QUrl,
  QVariant in this order, then the import of \<^verbatim>\<open>PyQt4.QtCore\<close>, then events that
  are no \<^verbatim>\<open>sip.setapi\<close> calls. For every other value, no event of the run is a
  \<^verbatim>\<open>sip.setapi\<close> call.
\<close>

theorem v2_api_selection_precedes_core_import:
  assumes "resolve_qt_api E a s = (Inr api, s1)"
      and "set_qt_api E a s = (r, s')"
  shows "\<exists>evs. trace s' = trace s @ evs \<and>
          (if api = ''pyqt4v2''
           then (\<exists>root. ImportFrom root ''QtCore'' \<in> set evs) \<longrightarrow>
                (\<exists>post. evs = Import ''sip'' # map (\<lambda>n. SetApi n 2)
                    [''QDate'', ''QDateTime'', ''QString'', ''QTextStream'', ''QTime'', ''QUrl'',
                     ''QVariant'']
                    @ ImportFrom ''PyQt4'' ''QtCore'' # post
                  \<and> list_all (\<lambda>e. \<not> is_SetApi e) post)
           else list_all (\<lambda>e. \<not> is_SetApi e) evs)"
proof (cases "api = ''pyqt4v2''")
  case True
  from v2_before_core [OF assms(1) [unfolded True] assms(2)] obtain evs where
    evs: "trace s' = trace s @ evs" and
    alt: "list_all (\<lambda>e. \<not> is_ImportFrom e) evs \<or>
            (\<exists>post. evs = Import ''sip'' # map (\<lambda>n. SetApi n 2)
                [''QDate'', ''QDateTime'', ''QString'', ''QTextStream'', ''QTime'', ''QUrl'',
                 ''QVariant'']
                @ ImportFrom ''PyQt4'' ''QtCore'' # post
              \<and> list_all (\<lambda>e. \<not> is_SetApi e) post)"
    by blast
  have "(\<exists>root. ImportFrom root ''QtCore'' \<in> set evs) \<longrightarrow>
                (\<exists>post. evs = Import ''sip'' # map (\<lambda>n. SetApi n 2)
                    [''QDate'', ''QDateTime'', ''QString'', ''QTextStream'', ''QTime'', ''QUrl'',
                     ''QVariant'']
                    @ ImportFrom ''PyQt4'' ''QtCore'' # post
                  \<and> list_all (\<lambda>e. \<not> is_SetApi e) post)"
    using alt by (auto simp: list_all_iff)
  with evs True show ?thesis by auto
next
  case False
  from no_setapi_without_v2 [OF assms(1) False assms(2)] False show ?thesis by auto
qed

theorem v2_api_selection_precedes_core_import_witness:
  "(\<exists>evs. trace (snd (set_qt_api (sample_env [''PYTEST_QT_API'' \<mapsto> ''pyqt4v2''] [''PyQt4'', ''sip''])
                       None fresh)) = trace fresh @ evs
      \<and> ImportFrom ''PyQt4'' ''QtCore'' \<in> set evs
      \<and> (\<exists>post. evs = Import ''sip'' # map (\<lambda>n. SetApi n 2)
              [''QDate'', ''QDateTime'', ''QString'', ''QTextStream'', ''QTime'', ''QUrl'',
               ''QVariant'']
              @ ImportFrom ''PyQt4'' ''QtCore'' # post
            \<and> list_all (\<lambda>e. \<not> is_SetApi e) post))"
proof -
  let ?E = "sample_env [''PYTEST_QT_API'' \<mapsto> ''pyqt4v2''] [''PyQt4'', ''sip'']"
  have res: "resolve_qt_api ?E None fresh = (Inr ''pyqt4v2'', fresh)"
    by (simp add: run_defs)
  have run: "set_qt_api ?E None fresh = (fst (set_qt_api ?E None fresh), snd (set_qt_api ?E None fresh))"
    by simp
  have tr: "trace (snd (set_qt_api ?E None fresh)) =
     [Import ''sip'', SetApi ''QDate'' 2, SetApi ''QDateTime'' 2, SetApi ''QString'' 2,
      SetApi ''QTextStream'' 2, SetApi ''QTime'' 2, SetApi ''QUrl'' 2, SetApi ''QVariant'' 2,
      ImportFrom ''PyQt4'' ''QtCore'', ImportFrom ''PyQt4'' ''QtGui'',
      ImportFrom ''PyQt4'' ''QtTest'']"
    by (simp add: run_defs)
  from v2_api_selection_precedes_core_import [OF res run] obtain evs where
    evs: "trace (snd (set_qt_api ?E None fresh)) = trace fresh @ evs" and
    imp: "(\<exists>root. ImportFrom root ''QtCore'' \<in> set evs) \<longrightarrow>
                (\<exists>post. evs = Import ''sip'' # map (\<lambda>n. SetApi n 2)
                    [''QDate'', ''QDateTime'', ''QString'', ''QTextStream'', ''QTime'', ''QUrl'',
                     ''QVariant'']
                    @ ImportFrom ''PyQt4'' ''QtCore'' # post
                  \<and> list_all (\<lambda>e. \<not> is_SetApi e) post)"
    by auto
  from evs tr have mem: "ImportFrom ''PyQt4'' ''QtCore'' \<in> set evs"
    by (simp add: fresh_def)
  with imp evs show ?thesis by blast
qed

text \<open>
  C8 (as amended). On an object whose \<^verbatim>\<open>pytest_qt_api\<close> is pyqt4, pyqt4v2 or pyqt5
  and whose \<^verbatim>\<open>QtCore\<close> is a module: when that module has
  \<^verbatim>\<open>PYQT_VERSION_STR\<close>, \<^verbatim>\<open>qVersion\<close> and \<^verbatim>\<open>QT_VERSION_STR\<close>,
  \<^verbatim>\<open>get_versions\<close> returns, and whenever it returns, the record has the name
  "PyQt5" for pyqt5 and "PyQt4" for pyqt4 and pyqt4v2, the binding's version
  \<^verbatim>\<open>QtCore.PYQT_VERSION_STR\<close>, the runtime version \<^verbatim>\<open>QtCore.qVersion()\<close> and the
  compiled version \<^verbatim>\<open>QtCore.QT_VERSION_STR\<close>; the object is not changed.
\<close>

theorem pyqt_versions:
  assumes "attrs s ''pytest_qt_api'' = Some (Str api)"
      and "api \<in> {''pyqt4'', ''pyqt4v2'', ''pyqt5''}"
      and "attrs s ''QtCore'' = Some (Module core)"
  shows "(has_attr E core ''PYQT_VERSION_STR'' \<and> has_attr E core ''qVersion''
            \<and> has_attr E core ''QT_VERSION_STR'' \<longrightarrow>
          get_versions E s =
            (Inr \<lparr>qt_api = Str (if api = ''pyqt5'' then ''PyQt5'' else ''PyQt4''),
                  qt_api_version = Sym core ''PYQT_VERSION_STR'',
                  runtime = Call (Sym core ''qVersion''),
                  compiled = Sym core ''QT_VERSION_STR''\<rparr>, s))
       \<and> (get_versions E s = (Inr vt, s') \<longrightarrow>
          vt = \<lparr>qt_api = Str (if api = ''pyqt5'' then ''PyQt5'' else ''PyQt4''),
                 qt_api_version = Sym core ''PYQT_VERSION_STR'',
                 runtime = Call (Sym core ''qVersion''),
                 compiled = Sym core ''QT_VERSION_STR''\<rparr> \<and> s' = s)"
proof -
  have "api \<noteq> ''pyside''" using assms(2) by auto
  from get_versions_pyqt [OF assms(1) this assms(3), of E] show ?thesis
    by (auto split: if_splits)
qed

theorem pyqt_versions_witness:
  "get_versions (sample_env [''PYTEST_QT_API'' \<mapsto> ''pyqt4v2''] [''PyQt4'', ''sip''])
     (snd (set_qt_api (sample_env [''PYTEST_QT_API'' \<mapsto> ''pyqt4v2''] [''PyQt4'', ''sip'']) None fresh))
   = (Inr \<lparr>qt_api = Str ''PyQt4'',
           qt_api_version = Sym ''PyQt4.QtCore'' ''PYQT_VERSION_STR'',
           runtime = Call (Sym ''PyQt4.QtCore'' ''qVersion''),
           compiled = Sym ''PyQt4.QtCore'' ''QT_VERSION_STR''\<rparr>,
      snd (set_qt_api (sample_env [''PYTEST_QT_API'' \<mapsto> ''pyqt4v2''] [''PyQt4'', ''sip'']) None fresh))"
proof -
  let ?E = "sample_env [''PYTEST_QT_API'' \<mapsto> ''pyqt4v2''] [''PyQt4'', ''sip'']"
  let ?s = "snd (set_qt_api ?E None fresh)"
  have api: "attrs ?s ''pytest_qt_api'' = Some (Str ''pyqt4v2'')"
    by (simp add: run_defs)
  have core: "attrs ?s ''QtCore'' = Some (Module ''PyQt4.QtCore'')"
    by (simp add: run_defs)
  have mem: "''pyqt4v2'' \<in> {''pyqt4'', ''pyqt4v2'', ''pyqt5''}" by simp
  have has: "has_attr ?E ''PyQt4.QtCore'' ''PYQT_VERSION_STR'' \<and>
             has_attr ?E ''PyQt4.QtCore'' ''qVersion'' \<and>
             has_attr ?E ''PyQt4.QtCore'' ''QT_VERSION_STR''"
    by (simp add: sample_env_def)
  from pyqt_versions [OF api mem core, of ?E, THEN conjunct1, THEN mp, OF has]
  show ?thesis by simp
qed

text \<open>
  C8 as stated fails: the two PyQt families do not share one display name. The object
  built for pyqt4 reports "PyQt4" and the one built for pyqt5 reports "PyQt5".
\<close>

theorem pyqt_display_names_differ_counterexample:
  "map_sum id qt_api (fst (get_versions (sample_env [''PYTEST_QT_API'' \<mapsto> ''pyqt4''] [''PyQt4''])
      (snd (set_qt_api (sample_env [''PYTEST_QT_API'' \<mapsto> ''pyqt4''] [''PyQt4'']) None fresh))))
     = Inr (Str ''PyQt4'')
   \<and> map_sum id qt_api (fst (get_versions (sample_env [''PYTEST_QT_API'' \<mapsto> ''pyqt5''] [''PyQt5''])
      (snd (set_qt_api (sample_env [''PYTEST_QT_API'' \<mapsto> ''pyqt5''] [''PyQt5'']) None fresh))))
     = Inr (Str ''PyQt5'')
   \<and> Str ''PyQt4'' \<noteq> Str ''PyQt5''"
proof -
  let ?E4 = "sample_env [''PYTEST_QT_API'' \<mapsto> ''pyqt4''] [''PyQt4'']"
  let ?E5 = "sample_env [''PYTEST_QT_API'' \<mapsto> ''pyqt5''] [''PyQt5'']"
  let ?s4 = "snd (set_qt_api ?E4 None fresh)"
  let ?s5 = "snd (set_qt_api ?E5 None fresh)"
  have api4: "attrs ?s4 ''pytest_qt_api'' = Some (Str ''pyqt4'')"
    and core4: "attrs ?s4 ''QtCore'' = Some (Module ''PyQt4.QtCore'')"
    and api5: "attrs ?s5 ''pytest_qt_api'' = Some (Str ''pyqt5'')"
    and core5: "attrs ?s5 ''QtCore'' = Some (Module ''PyQt5.QtCore'')"
    by (simp_all add: run_defs)
  have has: "\<And>m n. has_attr ?E4 m n" "\<And>m n. has_attr ?E5 m n"
    by (simp_all add: sample_env_def)
  have "fst (get_versions ?E4 ?s4) =
          Inr \<lparr>qt_api = Str ''PyQt4'', qt_api_version = Sym ''PyQt4.QtCore'' ''PYQT_VERSION_STR'',
                runtime = Call (Sym ''PyQt4.QtCore'' ''qVersion''),
                compiled = Sym ''PyQt4.QtCore'' ''QT_VERSION_STR''\<rparr>"
    by (simp add: get_versions_pyqt [OF api4 _ core4] has)
  moreover have "fst (get_versions ?E5 ?s5) =
          Inr \<lparr>qt_api = Str ''PyQt5'', qt_api_version = Sym ''PyQt5.QtCore'' ''PYQT_VERSION_STR'',
                runtime = Call (Sym ''PyQt5.QtCore'' ''qVersion''),
                compiled = Sym ''PyQt5.QtCore'' ''QT_VERSION_STR''\<rparr>"
    by (simp add: get_versions_pyqt [OF api5 _ core5] has)
  ultimately show ?thesis by simp
qed

section \<open>The override and the force flag\<close>

text \<open>
  C9 (as amended). When the force flag is not in effect, a non-empty override is taken
  as it is, without any check against pyside, pyqt4, pyqt4v2, pyqt5 and without
  lower-casing. An override outside that set is stored in \<^verbatim>\<open>self.pytest_qt_api\<close>
  and then fails in the lookup of \<^verbatim>\<open>_root_modules\<close> with \<^verbatim>\<open>KeyError\<close>, before
  any import and before any \<^verbatim>\<open>sip.setapi\<close> call.
\<close>

theorem unknown_override_fails_at_root_lookup:
  assumes "environ E ''PYTEST_QT_FORCE_PYQT'' \<noteq> Some ''true''"
      and "x \<noteq> []"
  shows "resolve_qt_api E (Some x) s = (Inr x, s)
       \<and> (x \<notin> set known_apis \<longrightarrow>
            set_qt_api E (Some x) s =
              (Inl (KeyError x), s\<lparr>attrs := (attrs s)(''pytest_qt_api'' \<mapsto> Str x)\<rparr>))"
proof -
  have res: "resolve_qt_api E (Some x) s = (Inr x, s)"
    using assms by (simp add: resolve_qt_api_def force_flag_iff py_not_def return_def)
  have "set_qt_api E (Some x) s =
          (Inl (KeyError x), s\<lparr>attrs := (attrs s)(''pytest_qt_api'' \<mapsto> Str x)\<rparr>)"
    if "x \<notin> set known_apis"
    using res root_modules_unknown [OF that]
    by (simp add: set_qt_api_def bind_def seq_def setattr_self_def root_module_of_def raise_def)
  with res show ?thesis by blast
qed

theorem unknown_override_fails_at_root_lookup_witness:
  "resolve_qt_api (sample_env Map.empty [''PySide'', ''PyQt4'', ''PyQt5'']) (Some ''PyQt5'') fresh
     = (Inr ''PyQt5'', fresh)
   \<and> set_qt_api (sample_env Map.empty [''PySide'', ''PyQt4'', ''PyQt5'']) (Some ''PyQt5'') fresh
     = (Inl (KeyError ''PyQt5''), fresh\<lparr>attrs := (attrs fresh)(''pytest_qt_api'' \<mapsto> Str ''PyQt5'')\<rparr>)"
  using unknown_override_fails_at_root_lookup
          [of "sample_env Map.empty [''PySide'', ''PyQt4'', ''PyQt5'']" "''PyQt5''" fresh]
  by (simp add: sample_env_def known_apis_def)

text \<open>
  C9 as stated fails: the override "bogus" passes the resolution, is stored on the
  object, and reaches the lookup of \<^verbatim>\<open>_root_modules\<close>, which raises
  \<^verbatim>\<open>KeyError\<close>.
\<close>

theorem unknown_override_not_validated_counterexample:
  "resolve_qt_api (sample_env Map.empty [''PySide'', ''PyQt4'', ''PyQt5'']) (Some ''bogus'') fresh
     = (Inr ''bogus'', fresh)
   \<and> set_qt_api (sample_env Map.empty [''PySide'', ''PyQt4'', ''PyQt5'']) (Some ''bogus'') fresh
     = (Inl (KeyError ''bogus''), \<lparr>attrs = [''pytest_qt_api'' \<mapsto> Str ''bogus''], trace = []\<rparr>)"
  by (simp add: run_defs)

text \<open>
  The resolution when the force flag is not in effect, written out step by step.
\<close>

lemma resolve_without_force:
  assumes "environ E ''PYTEST_QT_FORCE_PYQT'' \<noteq> Some ''true''"
  shows "resolve_qt_api E a s =
      (if \<not> py_not a then (Inr (case a of Some x \<Rightarrow> x | None \<Rightarrow> []), s)
       else case environ E ''PYTEST_QT_API'' of
          Some v \<Rightarrow>
            if lower v \<in> set known_apis then (Inr (lower v), s)
            else (Inl (RuntimeError (''Invalid value for $PYTEST_QT_API: '' @ lower v)), s)
        | None \<Rightarrow>
            (case find (\<lambda>c. importable E (fst c)) probe_order of
               Some c \<Rightarrow>
                 (Inr (snd c),
                  s\<lparr>trace := trace s
                       @ map (\<lambda>c. Import (fst c))
                           (takeWhile (\<lambda>c. \<not> importable E (fst c)) probe_order)
                       @ [Import (fst c)]\<rparr>)
             | None \<Rightarrow>
                 (Inl (RuntimeError
                    ''pytest-qt requires either PySide, PyQt4 or PyQt5 to be installed''),
                  s\<lparr>trace := trace s
                       @ [Import ''PySide'', Import ''PyQt4'', Import ''PyQt5'']\<rparr>)))"
proof (cases "py_not a")
  case False
  with assms show ?thesis
    by (simp add: resolve_qt_api_def force_flag_iff return_def)
next
  case True
  show ?thesis
  proof (cases "environ E ''PYTEST_QT_API''")
    case (Some v)
    with True assms show ?thesis
      by (simp add: resolve_qt_api_def force_flag_iff return_def raise_def)
  next
    case None
    with True assms show ?thesis
      by (simp add: resolve_qt_api_def force_flag_iff guess_qt_api_def bind_def try_import_eq
            return_def raise_def probe_order_def)
  qed
qed

text \<open>
  C10. The force flag is in effect only when \<^verbatim>\<open>$PYTEST_QT_FORCE_PYQT\<close> is exactly
  the string "true". With any other value, or with the variable not set, the resolution
  is what the later steps give: a non-empty override is returned as it is; otherwise a
  value of \<^verbatim>\<open>$PYTEST_QT_API\<close> is lower-cased and returned when it is one of
  pyside, pyqt4, pyqt4v2, pyqt5, and rejected with the configuration error when it is not;
  otherwise the packages are probed in the order PySide, PyQt4, PyQt5, and the value of
  the first that can be imported is returned, or the no-backend error is raised after
  the three probes. The whole of \<^verbatim>\<open>set_qt_api\<close> then behaves as it does when the
  variable is removed from the environment.
\<close>

theorem force_flag_only_literal_true:
  assumes "environ E ''PYTEST_QT_FORCE_PYQT'' \<noteq> Some ''true''"
  shows "resolve_qt_api E a s =
      (if \<not> py_not a then (Inr (case a of Some x \<Rightarrow> x | None \<Rightarrow> []), s)
       else case environ E ''PYTEST_QT_API'' of
          Some v \<Rightarrow>
            if lower v \<in> set known_apis then (Inr (lower v), s)
            else (Inl (RuntimeError (''Invalid value for $PYTEST_QT_API: '' @ lower v)), s)
        | None \<Rightarrow>
            (case find (\<lambda>c. importable E (fst c)) probe_order of
               Some c \<Rightarrow>
                 (Inr (snd c),
                  s\<lparr>trace := trace s
                       @ map (\<lambda>c. Import (fst c))
                           (takeWhile (\<lambda>c. \<not> importable E (fst c)) probe_order)
                       @ [Import (fst c)]\<rparr>)
             | None \<Rightarrow>
                 (Inl (RuntimeError
                    ''pytest-qt requires either PySide, PyQt4 or PyQt5 to be installed''),
                  s\<lparr>trace := trace s
                       @ [Import ''PySide'', Import ''PyQt4'', Import ''PyQt5'']\<rparr>)))
    \<and> set_qt_api E a s =
          set_qt_api (E\<lparr>environ := (environ E)(''PYTEST_QT_FORCE_PYQT'' := None)\<rparr>) a s"
proof
  show "resolve_qt_api E a s =
      (if \<not> py_not a then (Inr (case a of Some x \<Rightarrow> x | None \<Rightarrow> []), s)
       else case environ E ''PYTEST_QT_API'' of
          Some v \<Rightarrow>
            if lower v \<in> set known_apis then (Inr (lower v), s)
            else (Inl (RuntimeError (''Invalid value for $PYTEST_QT_API: '' @ lower v)), s)
        | None \<Rightarrow>
            (case find (\<lambda>c. importable E (fst c)) probe_order of
               Some c \<Rightarrow>
                 (Inr (snd c),
                  s\<lparr>trace := trace s
                       @ map (\<lambda>c. Import (fst c))
                           (takeWhile (\<lambda>c. \<not> importable E (fst c)) probe_order)
                       @ [Import (fst c)]\<rparr>)
             | None \<Rightarrow>
                 (Inl (RuntimeError
                    ''pytest-qt requires either PySide, PyQt4 or PyQt5 to be installed''),
                  s\<lparr>trace := trace s
                       @ [Import ''PySide'', Import ''PyQt4'', Import ''PyQt5'']\<rparr>)))"
    using assms by (rule resolve_without_force)
  show "set_qt_api E a s =
          set_qt_api (E\<lparr>environ := (environ E)(''PYTEST_QT_FORCE_PYQT'' := None)\<rparr>) a s"
    using assms
    by (simp add: set_qt_api_def resolve_flag_unset environ_update_irrelevant cong: if_cong)
qed

theorem force_flag_only_literal_true_witness:
  "resolve_qt_api
     (sample_env [''PYTEST_QT_FORCE_PYQT'' \<mapsto> ''True'', ''PYTEST_QT_API'' \<mapsto> ''pyqt5'']
        [''PySide'', ''PyQt4'', ''PyQt5'']) (Some ''pyside'') fresh
     = (Inr ''pyside'', fresh)
   \<and> resolve_qt_api
     (sample_env [''PYTEST_QT_FORCE_PYQT'' \<mapsto> ''TRUE'', ''PYTEST_QT_API'' \<mapsto> ''PyQt5'']
        [''PySide'', ''PyQt4'', ''PyQt5'']) None fresh
     = (Inr ''pyqt5'', fresh)
   \<and> resolve_qt_api (sample_env [''PYTEST_QT_FORCE_PYQT'' \<mapsto> ''1''] [''PyQt5'']) None fresh
     = (Inr ''pyqt5'',
        fresh\<lparr>trace := trace fresh @ [Import ''PySide'', Import ''PyQt4'', Import ''PyQt5'']\<rparr>)
   \<and> resolve_qt_api (sample_env Map.empty [''PySide'', ''PyQt4'']) None fresh
     = (Inr ''pyside'', fresh\<lparr>trace := trace fresh @ [Import ''PySide'']\<rparr>)
   \<and> set_qt_api
     (sample_env [''PYTEST_QT_FORCE_PYQT'' \<mapsto> ''True'', ''PYTEST_QT_API'' \<mapsto> ''pyqt5'']
        [''PySide'', ''PyQt4'', ''PyQt5'']) None fresh
     = set_qt_api (sample_env [''PYTEST_QT_API'' \<mapsto> ''pyqt5''] [''PySide'', ''PyQt4'', ''PyQt5''])
         None fresh"
proof -
  let ?E1 = "sample_env [''PYTEST_QT_FORCE_PYQT'' \<mapsto> ''True'', ''PYTEST_QT_API'' \<mapsto> ''pyqt5'']
        [''PySide'', ''PyQt4'', ''PyQt5'']"
  let ?E2 = "sample_env [''PYTEST_QT_FORCE_PYQT'' \<mapsto> ''TRUE'', ''PYTEST_QT_API'' \<mapsto> ''PyQt5'']
        [''PySide'', ''PyQt4'', ''PyQt5'']"
  let ?E3 = "sample_env [''PYTEST_QT_FORCE_PYQT'' \<mapsto> ''1''] [''PyQt5'']"
  let ?E4 = "sample_env Map.empty [''PySide'', ''PyQt4'']"
  have f1: "environ ?E1 ''PYTEST_QT_FORCE_PYQT'' \<noteq> Some ''true''"
    and f2: "environ ?E2 ''PYTEST_QT_FORCE_PYQT'' \<noteq> Some ''true''"
    and f3: "environ ?E3 ''PYTEST_QT_FORCE_PYQT'' \<noteq> Some ''true''"
    and f4: "environ ?E4 ''PYTEST_QT_FORCE_PYQT'' \<noteq> Some ''true''"
    by (simp_all add: sample_env_def)
  have r1: "resolve_qt_api ?E1 (Some ''pyside'') fresh = (Inr ''pyside'', fresh)"
    using force_flag_only_literal_true [OF f1, of "Some ''pyside''" fresh, THEN conjunct1]
    by (simp add: py_not_def)
  have r2: "resolve_qt_api ?E2 None fresh = (Inr ''pyqt5'', fresh)"
    using force_flag_only_literal_true [OF f2, of None fresh, THEN conjunct1]
    by (simp add: py_not_def sample_env_def lower_def lower_char_def known_apis_def)
  have r3: "resolve_qt_api ?E3 None fresh =
      (Inr ''pyqt5'',
       fresh\<lparr>trace := trace fresh @ [Import ''PySide'', Import ''PyQt4'', Import ''PyQt5'']\<rparr>)"
    using force_flag_only_literal_true [OF f3, of None fresh, THEN conjunct1]
    by (simp add: py_not_def sample_env_def probe_order_def)
  have r4: "resolve_qt_api ?E4 None fresh =
      (Inr ''pyside'', fresh\<lparr>trace := trace fresh @ [Import ''PySide'']\<rparr>)"
    using force_flag_only_literal_true [OF f4, of None fresh, THEN conjunct1]
    by (simp add: py_not_def sample_env_def probe_order_def)
  have r5: "set_qt_api ?E1 None fresh =
      set_qt_api (sample_env [''PYTEST_QT_API'' \<mapsto> ''pyqt5''] [''PySide'', ''PyQt4'', ''PyQt5''])
         None fresh"
    using force_flag_only_literal_true [OF f1, of None fresh, THEN conjunct2]
    by (simp add: sample_env_def fun_upd_twist)
  from r1 r2 r3 r4 r5 show ?thesis by blast
qed

end
